theory Spec2Isabelle
  imports Complex_Main "HOL-Library.Word"
begin

section \<open>The image pipeline of \<open>backend/services/image_processor.py\<close>\<close>

text \<open>
  A shallow embedding of \<open>ImageProcessor\<close> and of the upload handler \<open>analyze_image\<close>
  of \<open>backend/main.py\<close>.

  Conventions of the model.
  \<^item> A method \<open>_name\<close> of the source is the constant \<open>name\<close>.
  \<^item> A Python exception is a value \<open>Inl e\<close> of \<open>error + 'a\<close>; a normal return is \<open>Inr v\<close>.
  \<^item> File paths are strings of 8-bit characters, and \<open>os.path\<close> is \<open>posixpath\<close>
    (separator \<open>/\<close>, no alternative separator).
  \<^item> The libraries the code calls (pydicom, PIL, OpenCV) and the file system behind them
    are a record \<open>libs\<close> of functions: the model fixes how the code combines their
    results, not what they compute.
  \<^item> NumPy's floating-point arithmetic is modelled by exact rational arithmetic, extended
    by the special values that a division by zero produces; the windowing transform is
    also given with the rounding of every float64 operation as a parameter.
\<close>

datatype error =
    InvalidDicomError
  | FileNotFoundError
  | UnidentifiedImageError
  | AttributeError
  | IndexError
  | TypeError
  | ValueError
  | CvError
  | OSError
  | OtherError string

text \<open>Sequencing: the first exception raised ends the computation.\<close>

definition and_then :: "error + 'a \<Rightarrow> ('a \<Rightarrow> error + 'b) \<Rightarrow> error + 'b" where
  "and_then m f = (case m of Inl e \<Rightarrow> Inl e | Inr v \<Rightarrow> f v)"

subsection \<open>\<open>str.lower\<close> and \<open>os.path.splitext\<close>\<close>

text \<open>\<open>str.lower\<close> on ASCII: the letters A to Z map to a to z, every other character to itself.\<close>

definition lower_char :: "char \<Rightarrow> char" where
  "lower_char c =
     (case map_of (zip ''ABCDEFGHIJKLMNOPQRSTUVWXYZ'' ''abcdefghijklmnopqrstuvwxyz'') c of
        Some l \<Rightarrow> l
      | None \<Rightarrow> c)"

definition lower :: "string \<Rightarrow> string" where
  "lower s = map lower_char s"

text \<open>
  \<open>str.rfind\<close> for a one-character needle: the greatest index holding \<open>c\<close>, or \<open>-1\<close>.
  The scan runs left to right and remembers the last hit.
\<close>

fun rfind_from :: "char \<Rightarrow> string \<Rightarrow> int \<Rightarrow> int \<Rightarrow> int" where
  "rfind_from c [] i hit = hit"
| "rfind_from c (x # xs) i hit = rfind_from c xs (i + 1) (if x = c then i else hit)"

definition rfind :: "string \<Rightarrow> char \<Rightarrow> int" where
  "rfind p c = rfind_from c p 0 (- 1)"

text \<open>
  The loop of \<open>genericpath._splitext\<close> that skips the leading dots of the last path
  component: it answers whether some character between \<open>filenameIndex\<close> and \<open>dotIndex\<close>
  is not a dot.
  \<^verbatim>\<open>
    while filenameIndex < dotIndex:
        if p[filenameIndex:filenameIndex+1] != extsep:
            return p[:dotIndex], p[dotIndex:]
        filenameIndex += 1
  \<close>
\<close>

function skip_leading_dots :: "string \<Rightarrow> nat \<Rightarrow> nat \<Rightarrow> bool" where
  "skip_leading_dots p filenameIndex dotIndex =
     (if filenameIndex < dotIndex
      then (if take 1 (drop filenameIndex p) \<noteq> ''.'' then True
            else skip_leading_dots p (filenameIndex + 1) dotIndex)
      else False)"
  by pat_completeness auto
termination
  by (relation "measure (\<lambda>(p, filenameIndex, dotIndex). dotIndex - filenameIndex)") auto

declare skip_leading_dots.simps [simp del]

definition splitext :: "string \<Rightarrow> string \<times> string" where
  "splitext p =
     (let sepIndex = rfind p (CHR ''/'');
          dotIndex = rfind p (CHR ''.'')
      in if dotIndex > sepIndex \<and> skip_leading_dots p (nat (sepIndex + 1)) (nat dotIndex)
         then (take (nat dotIndex) p, drop (nat dotIndex) p)
         else (p, []))"

subsection \<open>Data: DICOM datasets, arrays, images\<close>

text \<open>
  A NumPy integer dtype. \<open>ds.pixel_array\<close> has one of these (from BitsAllocated and
  PixelRepresentation); PIL's mode \<open>L\<close> gives \<open>UInt8\<close>. Float Pixel Data is not modelled.
\<close>

datatype dtype = UInt8 | Int8 | UInt16 | Int16 | UInt32 | Int32

fun bits :: "dtype \<Rightarrow> nat" where
  "bits UInt8 = 8" | "bits Int8 = 8"
| "bits UInt16 = 16" | "bits Int16 = 16"
| "bits UInt32 = 32" | "bits Int32 = 32"

fun is_signed :: "dtype \<Rightarrow> bool" where
  "is_signed Int8 = True" | "is_signed Int16 = True" | "is_signed Int32 = True"
| "is_signed _ = False"

text \<open>The value an integer has after it is stored in a dtype: two's complement wrap-around.\<close>

definition wrap :: "dtype \<Rightarrow> int \<Rightarrow> int" where
  "wrap dt v =
     (if is_signed dt
      then (v + 2 ^ (bits dt - 1)) mod 2 ^ bits dt - 2 ^ (bits dt - 1)
      else v mod 2 ^ bits dt)"

definition in_dtype :: "dtype \<Rightarrow> int \<Rightarrow> bool" where
  "in_dtype dt v =
     (if is_signed dt then - (2 ^ (bits dt - 1)) \<le> v \<and> v < 2 ^ (bits dt - 1)
      else 0 \<le> v \<and> v < 2 ^ bits dt)"

text \<open>An \<open>ndarray\<close> of integers: its shape, its dtype and its samples in row-major order.\<close>

record ndarray =
  shape :: "nat list"
  dtype :: dtype
  data :: "int list"

text \<open>
  The value of a Decimal String attribute (WindowCenter, WindowWidth) as pydicom gives it:
  \<open>None\<close> for an empty element, a number for one value, a \<open>MultiValue\<close> for several.
\<close>

datatype dsvalue = DSNone | DSfloat rat | MultiValue "rat list"

record dataset =
  pixel_array :: "error + ndarray"
  PhotometricInterpretation :: "string option"
  WindowCenter :: "dsvalue option"
  WindowWidth :: "dsvalue option"

text \<open>A PIL image: its mode, its \<open>size\<close> as (width, height) and its raster.\<close>

record pil_image =
  mode :: string
  size_wh :: "nat \<times> nat"
  pixels :: "int list"

type_synonym byte = "8 word"

text \<open>
  A NumPy float, as far as the code can produce one: a number, or what a division by
  zero leaves (NaN for \<open>0/0\<close>, an infinity otherwise). NumPy does not raise on such a
  division of an array; it warns and stores the special value.
\<close>

datatype npfloat = Fin rat | NaN | PosInf | NegInf

text \<open>
  The libraries and the file system. \<open>dcmread path stop_before_pixels\<close> is
  \<open>pydicom.dcmread\<close>; \<open>image_open\<close> is \<open>Image.open\<close>; \<open>convert_L\<close> is
  \<open>image.convert('L')\<close>; \<open>equalizeHist\<close> is \<open>cv2.equalizeHist\<close>; \<open>GaussianBlur3\<close> is
  \<open>cv2.GaussianBlur(_, (3, 3), 0)\<close>; \<open>fromarray\<close> is \<open>Image.fromarray\<close>; \<open>lanczos\<close>
  computes the raster of \<open>image.resize(size, LANCZOS)\<close>; \<open>png_save\<close> is the byte string
  that \<open>image.save(buffer, format='PNG')\<close> writes; \<open>cast_invalid\<close> is the platform's
  result of converting to \<open>uint8\<close> a float that is NaN, infinite or out of range,
  which NumPy leaves undefined (it is reduced to the range of \<open>uint8\<close> where it is used).
\<close>

record libs =
  dcmread :: "string \<Rightarrow> bool \<Rightarrow> error + dataset"
  image_open :: "string \<Rightarrow> error + pil_image"
  convert_L :: "pil_image \<Rightarrow> error + pil_image"
  equalizeHist :: "ndarray \<Rightarrow> error + ndarray"
  GaussianBlur3 :: "ndarray \<Rightarrow> error + ndarray"
  fromarray :: "ndarray \<Rightarrow> error + pil_image"
  lanczos :: "pil_image \<Rightarrow> nat \<times> nat \<Rightarrow> error + int list"
  png_save :: "pil_image \<Rightarrow> error + byte list"
  cast_invalid :: "npfloat \<Rightarrow> int"

subsection \<open>\<open>_is_dicom_file\<close>\<close>

text \<open>
  The calls a function makes to the file system, in order: the classifier's claims are
  about whether the file is read at all.
\<close>

datatype io_event = DcmRead string bool

text \<open>
  \<^verbatim>\<open>
    _, ext = os.path.splitext(file_path.lower())
    if ext == '.dcm':
        return True
    try:
        pydicom.dcmread(file_path, stop_before_pixels=True)
        return True
    except (InvalidDicomError, Exception):
        return False
  \<close>
  The result is paired with the reads performed.
\<close>

definition is_dicom_file :: "libs \<Rightarrow> string \<Rightarrow> (error + bool) \<times> io_event list" where
  "is_dicom_file L file_path =
     (let ext = snd (splitext (lower file_path))
      in if ext = ''.dcm'' then (Inr True, [])
         else (case dcmread L file_path True of
                 Inr ds \<Rightarrow> (Inr True, [DcmRead file_path True])
               | Inl e \<Rightarrow> (Inr False, [DcmRead file_path True])))"

subsection \<open>NumPy arithmetic\<close>

text \<open>\<open>np.max\<close> and \<open>np.min\<close>: a reduction of an empty array raises ValueError.\<close>

definition amax :: "'a::linorder list \<Rightarrow> error + 'a" where
  "amax xs = (case xs of [] \<Rightarrow> Inl ValueError | x # ys \<Rightarrow> Inr (fold max ys x))"

definition amin :: "'a::linorder list \<Rightarrow> error + 'a" where
  "amin xs = (case xs of [] \<Rightarrow> Inl ValueError | x # ys \<Rightarrow> Inr (fold min ys x))"

text \<open>Division of a float array by a float: a zero divisor gives NaN or an infinity.\<close>

definition np_divide :: "rat \<Rightarrow> rat \<Rightarrow> npfloat" where
  "np_divide x y =
     (if y \<noteq> 0 then Fin (x / y)
      else if x = 0 then NaN
      else if 0 < x then PosInf else NegInf)"

fun np_multiply :: "npfloat \<Rightarrow> rat \<Rightarrow> npfloat" where
  "np_multiply (Fin x) k = Fin (x * k)"
| "np_multiply NaN k = NaN"
| "np_multiply PosInf k = (if 0 < k then PosInf else if k < 0 then NegInf else NaN)"
| "np_multiply NegInf k = (if 0 < k then NegInf else if k < 0 then PosInf else NaN)"

definition trunc :: "rat \<Rightarrow> int" where
  "trunc r = (if 0 \<le> r then \<lfloor>r\<rfloor> else \<lceil>r\<rceil>)"

text \<open>
  \<open>.astype(np.uint8)\<close> of a float: truncation toward zero where the truncated value is
  a \<open>uint8\<close>, the platform's choice otherwise.
\<close>

definition astype_uint8 :: "libs \<Rightarrow> npfloat \<Rightarrow> int" where
  "astype_uint8 L v =
     (case v of
        Fin r \<Rightarrow> if - 1 < r \<and> r < 256 then trunc r else wrap UInt8 (cast_invalid L v)
      | _ \<Rightarrow> wrap UInt8 (cast_invalid L v))"

subsection \<open>\<open>_apply_window_level\<close>\<close>

text \<open>
  \<^verbatim>\<open>
    min_val = window_center - window_width / 2
    max_val = window_center + window_width / 2
    windowed = np.clip(image, min_val, max_val)
    windowed = ((windowed - min_val) / (max_val - min_val) * 255).astype(np.uint8)
  \<close>
  \<open>np.clip(a, lo, hi)\<close> is \<open>np.minimum(hi, np.maximum(a, lo))\<close>, with no check that
  \<open>lo \<le> hi\<close>. \<open>window_scaled\<close> is the float array before the cast.
\<close>

definition np_clip :: "rat \<Rightarrow> rat \<Rightarrow> rat \<Rightarrow> rat" where
  "np_clip a_min a_max x = min a_max (max x a_min)"

definition window_scaled :: "int list \<Rightarrow> rat \<Rightarrow> rat \<Rightarrow> npfloat list" where
  "window_scaled xs window_center window_width =
     (let min_val = window_center - window_width / 2;
          max_val = window_center + window_width / 2;
          windowed = map (\<lambda>x. np_clip min_val max_val (of_int x)) xs
      in map (\<lambda>v. np_multiply (np_divide (v - min_val) (max_val - min_val)) 255) windowed)"

definition apply_window_level :: "libs \<Rightarrow> ndarray \<Rightarrow> rat \<Rightarrow> rat \<Rightarrow> ndarray" where
  "apply_window_level L img window_center window_width =
     \<lparr>shape = shape img, dtype = UInt8,
      data = map (astype_uint8 L) (window_scaled (data img) window_center window_width)\<rparr>"

text \<open>
  The same transform with the rounding of float64 arithmetic made explicit: every
  floating-point operation of the source returns \<open>rnd\<close> of its exact result, \<open>rnd\<close>
  being the rounding function of the arithmetic (overflow to an infinity is not
  modelled). The samples are integers of at most 32 bits, which float64 holds exactly,
  and \<open>np.clip\<close> selects one of its arguments, so neither rounds. With \<open>rnd\<close> the
  identity this is \<open>window_scaled\<close>.
\<close>

definition np_divide_float :: "(rat \<Rightarrow> rat) \<Rightarrow> rat \<Rightarrow> rat \<Rightarrow> npfloat" where
  "np_divide_float rnd x y =
     (if y \<noteq> 0 then Fin (rnd (x / y))
      else if x = 0 then NaN
      else if 0 < x then PosInf else NegInf)"

fun np_multiply_float :: "(rat \<Rightarrow> rat) \<Rightarrow> npfloat \<Rightarrow> rat \<Rightarrow> npfloat" where
  "np_multiply_float rnd (Fin x) k = Fin (rnd (x * k))"
| "np_multiply_float rnd NaN k = NaN"
| "np_multiply_float rnd PosInf k = (if 0 < k then PosInf else if k < 0 then NegInf else NaN)"
| "np_multiply_float rnd NegInf k = (if 0 < k then NegInf else if k < 0 then PosInf else NaN)"

definition window_scaled_float ::
  "(rat \<Rightarrow> rat) \<Rightarrow> int list \<Rightarrow> rat \<Rightarrow> rat \<Rightarrow> npfloat list" where
  "window_scaled_float rnd xs window_center window_width =
     (let min_val = rnd (window_center - rnd (window_width / 2));
          max_val = rnd (window_center + rnd (window_width / 2));
          windowed = map (\<lambda>x. np_clip min_val max_val (of_int x)) xs
      in map (\<lambda>v. np_multiply_float rnd
                     (np_divide_float rnd (rnd (v - min_val)) (rnd (max_val - min_val))) 255)
           windowed)"

definition apply_window_level_float ::
  "libs \<Rightarrow> (rat \<Rightarrow> rat) \<Rightarrow> ndarray \<Rightarrow> rat \<Rightarrow> rat \<Rightarrow> ndarray" where
  "apply_window_level_float L rnd img window_center window_width =
     \<lparr>shape = shape img, dtype = UInt8,
      data = map (astype_uint8 L)
               (window_scaled_float rnd (data img) window_center window_width)\<rparr>"

subsection \<open>\<open>_read_dicom\<close>\<close>

text \<open>\<open>np.max(pixel_array) - pixel_array\<close>, computed in the array's own dtype.\<close>

definition invert_polarity :: "ndarray \<Rightarrow> error + ndarray" where
  "invert_polarity a =
     and_then (amax (data a))
       (\<lambda>m. Inr (a\<lparr>data := map (\<lambda>x. wrap (dtype a) (m - x)) (data a)\<rparr>))"

text \<open>
  \<^verbatim>\<open>
    if isinstance(window_center, (list, multival.MultiValue)):
        window_center = window_center[0]
  \<close>
  The result is a number, or \<open>None\<close> when the attribute is present and empty.
\<close>

definition first_value :: "dsvalue \<Rightarrow> error + rat option" where
  "first_value v =
     (case v of
        MultiValue xs \<Rightarrow> (case xs of [] \<Rightarrow> Inl IndexError | x # _ \<Rightarrow> Inr (Some x))
      | DSfloat r \<Rightarrow> Inr (Some r)
      | DSNone \<Rightarrow> Inr None)"

text \<open>
  \<^verbatim>\<open>
    ds = pydicom.dcmread(file_path)
    pixel_array = ds.pixel_array
    if hasattr(ds, 'PhotometricInterpretation'):
        if ds.PhotometricInterpretation == 'MONOCHROME1':
            pixel_array = np.max(pixel_array) - pixel_array
    if hasattr(ds, 'WindowCenter') and hasattr(ds, 'WindowWidth'):
        window_center = ds.WindowCenter
        window_width = ds.WindowWidth
        if isinstance(window_center, (list, multival.MultiValue)):
            window_center = window_center[0]
        if isinstance(window_width, (list, multival.MultiValue)):
            window_width = window_width[0]
        pixel_array = self._apply_window_level(pixel_array, window_center, window_width)
    return pixel_array
  \<close>
  \<open>decode_dataset\<close> is the body once the dataset is read; the \<open>except\<close> clause logs
  and re-raises. Arithmetic on \<open>None\<close> in \<open>_apply_window_level\<close> raises TypeError.
\<close>

definition decode_dataset :: "libs \<Rightarrow> dataset \<Rightarrow> error + ndarray" where
  "decode_dataset L ds =
     and_then (pixel_array ds) (\<lambda>pixel_array0.
     and_then (if PhotometricInterpretation ds = Some ''MONOCHROME1''
               then invert_polarity pixel_array0 else Inr pixel_array0) (\<lambda>pixel_array1.
       (case (WindowCenter ds, WindowWidth ds) of
          (Some wc, Some ww) \<Rightarrow>
            and_then (first_value wc) (\<lambda>window_center.
            and_then (first_value ww) (\<lambda>window_width.
              (case (window_center, window_width) of
                 (Some c, Some w) \<Rightarrow> Inr (apply_window_level L pixel_array1 c w)
               | _ \<Rightarrow> Inl TypeError)))
        | _ \<Rightarrow> Inr pixel_array1)))"

definition read_dicom :: "libs \<Rightarrow> string \<Rightarrow> error + ndarray" where
  "read_dicom L file_path = and_then (dcmread L file_path False) (decode_dataset L)"

subsection \<open>\<open>_read_standard_image\<close>\<close>

text \<open>
  \<^verbatim>\<open>
    image = Image.open(file_path)
    if image.mode != 'L':
        image = image.convert('L')
    image_array = np.array(image)
    return image_array
  \<close>
  The array of a PIL image has shape (height, width).
\<close>

definition read_standard_image :: "libs \<Rightarrow> string \<Rightarrow> error + ndarray" where
  "read_standard_image L file_path =
     and_then (image_open L file_path) (\<lambda>image0.
     and_then (if mode image0 \<noteq> ''L'' then convert_L L image0 else Inr image0) (\<lambda>image1.
       Inr \<lparr>shape = [snd (size_wh image1), fst (size_wh image1)], dtype = UInt8,
            data = pixels image1\<rparr>))"

subsection \<open>\<open>_normalize_ct_image\<close>\<close>

text \<open>
  \<open>strided n m xs\<close> keeps the first \<open>n\<close> of every \<open>m\<close> samples: with \<open>m\<close> the size of a
  block along axis 2 and \<open>n\<close> the size of one entry of it, this is \<open>image[:, :, 0]\<close>.
\<close>

function strided :: "nat \<Rightarrow> nat \<Rightarrow> 'a list \<Rightarrow> 'a list" where
  "strided n m xs = (if m = 0 \<or> xs = [] then [] else take n xs @ strided n m (drop m xs))"
  by pat_completeness auto
termination
  by (relation "measure (\<lambda>(n, m, xs). length xs)") auto

declare strided.simps [simp del]

definition first_channel :: "ndarray \<Rightarrow> ndarray" where
  "first_channel a =
     (case shape a of
        h # w # c # rest \<Rightarrow>
          a\<lparr>shape := h # w # rest, data := strided (prod_list rest) (c * prod_list rest) (data a)\<rparr>
      | _ \<Rightarrow> a)"

definition squeeze :: "ndarray \<Rightarrow> ndarray" where
  "squeeze a = a\<lparr>shape := filter (\<lambda>d. d \<noteq> 1) (shape a)\<rparr>"

text \<open>
  \<^verbatim>\<open>
    if len(image.shape) > 2:
        image = image[:, :, 0] if image.shape[2] > 1 else image.squeeze()
    image = image.astype(np.float32)
    if image.max() > image.min():
        image = (image - image.min()) / (image.max() - image.min()) * 255
    else:
        image = np.zeros_like(image)
    image_uint8 = image.astype(np.uint8)
    equalized = cv2.equalizeHist(image_uint8)
    blurred = cv2.GaussianBlur(equalized, (3, 3), 0)
    return blurred
  \<close>
\<close>

text \<open>
  The min/max rescaling, as the float array before the cast: the division is made only
  when \<open>max > min\<close>; otherwise the array is \<open>np.zeros_like(image)\<close>.
\<close>

definition minmax_scaled :: "rat list \<Rightarrow> rat \<Rightarrow> rat \<Rightarrow> npfloat list" where
  "minmax_scaled xs mx mn =
     (if mx > mn then map (\<lambda>x. np_multiply (np_divide (x - mn) (mx - mn)) 255) xs
      else map (\<lambda>x. Fin 0) xs)"

definition normalize_ct_image :: "libs \<Rightarrow> ndarray \<Rightarrow> error + ndarray" where
  "normalize_ct_image L image0 =
     (let image1 = (if length (shape image0) > 2
                    then (if shape image0 ! 2 > 1 then first_channel image0 else squeeze image0)
                    else image0);
          image2 = (map of_int (data image1) :: rat list)
      in and_then (amax image2) (\<lambda>mx.
         and_then (amin image2) (\<lambda>mn.
           (let image_uint8 = \<lparr>shape = shape image1, dtype = UInt8,
                               data = map (astype_uint8 L) (minmax_scaled image2 mx mn)\<rparr>
            in and_then (equalizeHist L image_uint8) (\<lambda>equalized.
                 GaussianBlur3 L equalized)))))"

subsection \<open>\<open>_pil_to_base64\<close>\<close>

text \<open>
  \<open>base64.b64encode\<close>: the standard alphabet, three bytes (24 bits) to four
  characters (6 bits each), \<open>=\<close> padding for a last group of one or two bytes.
\<close>

definition b64_alphabet :: string where
  "b64_alphabet = ''ABCDEFGHIJKLMNOPQRSTUVWXYZabcdefghijklmnopqrstuvwxyz0123456789+/''"

definition b64_char :: "nat \<Rightarrow> char" where
  "b64_char i = b64_alphabet ! i"

fun b64encode :: "byte list \<Rightarrow> string" where
  "b64encode [] = []"
| "b64encode [a] =
     [b64_char (unat a div 4), b64_char (unat a mod 4 * 16), CHR ''='', CHR ''='']"
| "b64encode [a, b] =
     [b64_char (unat a div 4), b64_char (unat a mod 4 * 16 + unat b div 16),
      b64_char (unat b mod 16 * 4), CHR ''='']"
| "b64encode (a # b # c # rest) =
     [b64_char (unat a div 4), b64_char (unat a mod 4 * 16 + unat b div 16),
      b64_char (unat b mod 16 * 4 + unat c div 64), b64_char (unat c mod 64)]
     @ b64encode rest"

text \<open>
  \<^verbatim>\<open>
    buffer = BytesIO()
    image.save(buffer, format='PNG')
    image_bytes = buffer.getvalue()
    base64_string = base64.b64encode(image_bytes).decode('utf-8')
    return f"data:image/png;base64,{base64_string}"
  \<close>
\<close>

definition pil_to_base64 :: "libs \<Rightarrow> pil_image \<Rightarrow> error + string" where
  "pil_to_base64 L img =
     and_then (png_save L img) (\<lambda>image_bytes.
       Inr (''data:image/png;base64,'' @ b64encode image_bytes))"

text \<open>
  A strict base64 decoder, the inverse that the claim about the payload is stated with:
  groups of four characters of the alphabet, the last group possibly padded.
\<close>

fun index_of :: "char \<Rightarrow> string \<Rightarrow> nat option" where
  "index_of c [] = None"
| "index_of c (x # xs) = (if x = c then Some 0 else map_option Suc (index_of c xs))"

definition b64_value :: "char \<Rightarrow> nat option" where
  "b64_value c = index_of c b64_alphabet"

fun b64decode :: "string \<Rightarrow> byte list option" where
  "b64decode [] = Some []"
| "b64decode (c1 # c2 # c3 # c4 # rest) =
     (case (b64_value c1, b64_value c2) of
        (Some v1, Some v2) \<Rightarrow>
          (if c4 = CHR ''='' \<and> rest = []
           then (if c3 = CHR ''=''
                 then Some [of_nat (v1 * 4 + v2 div 16)]
                 else (case b64_value c3 of
                         Some v3 \<Rightarrow>
                           Some [of_nat (v1 * 4 + v2 div 16),
                                 of_nat (v2 mod 16 * 16 + v3 div 4)]
                       | None \<Rightarrow> None))
           else (case (b64_value c3, b64_value c4) of
                   (Some v3, Some v4) \<Rightarrow>
                     map_option
                       (\<lambda>bs. of_nat (v1 * 4 + v2 div 16)
                               # of_nat (v2 mod 16 * 16 + v3 div 4)
                               # of_nat (v3 mod 4 * 64 + v4) # bs)
                       (b64decode rest)
                 | _ \<Rightarrow> None))
      | _ \<Rightarrow> None)"
| "b64decode _ = None"

subsection \<open>\<open>read_and_normalize\<close>\<close>

definition target_size :: "nat \<times> nat" where
  "target_size = (512, 512)"

text \<open>
  \<open>image.resize(size, LANCZOS)\<close>: an image of the requested size, whose raster the
  library computes.
\<close>

definition resize :: "libs \<Rightarrow> pil_image \<Rightarrow> nat \<times> nat \<Rightarrow> error + pil_image" where
  "resize L img sz =
     and_then (lanczos L img sz) (\<lambda>px. Inr (img\<lparr>size_wh := sz, pixels := px\<rparr>))"

text \<open>
  \<^verbatim>\<open>
    is_dicom = self._is_dicom_file(file_path)
    if is_dicom:
        image_array = self._read_dicom(file_path)
    else:
        image_array = self._read_standard_image(file_path)
    normalized_image = self._normalize_ct_image(image_array)
    pil_image = Image.fromarray(normalized_image)
    if pil_image.size != self.target_size:
        pil_image = pil_image.resize(self.target_size, Image.Resampling.LANCZOS)
    base64_image = self._pil_to_base64(pil_image)
    return base64_image
  \<close>
  The \<open>except\<close> clause logs and re-raises. \<open>encoded_image\<close> is the image handed to
  \<open>_pil_to_base64\<close>.
\<close>

definition encoded_image :: "libs \<Rightarrow> string \<Rightarrow> error + pil_image" where
  "encoded_image L file_path =
     and_then (fst (is_dicom_file L file_path)) (\<lambda>is_dicom.
     and_then (if is_dicom then read_dicom L file_path
               else read_standard_image L file_path) (\<lambda>image_array.
     and_then (normalize_ct_image L image_array) (\<lambda>normalized_image.
     and_then (fromarray L normalized_image) (\<lambda>pil_image.
       if size_wh pil_image \<noteq> target_size then resize L pil_image target_size
       else Inr pil_image))))"

definition read_and_normalize :: "libs \<Rightarrow> string \<Rightarrow> error + string" where
  "read_and_normalize L file_path =
     and_then (encoded_image L file_path) (pil_to_base64 L)"

section \<open>The upload handler \<open>analyze_image\<close> of \<open>backend/main.py\<close>\<close>

text \<open>
  The file system is a map from paths to contents. What the handler cannot decide is a
  record of the environment's answers: the name \<open>tempfile.NamedTemporaryFile\<close> gives
  for a suffix (or its failure), the failure of writing and closing the temporary file
  (if any), and the outcome of the remote analysis. \<open>os.unlink\<close> of an existing file is
  taken to succeed.
\<close>

type_synonym filesystem = "string \<rightharpoonup> byte list"


record 'r environment =
  NamedTemporaryFile :: "string \<Rightarrow> error + string"
  write_error :: "error option"
  analyze_ct_scan :: "string \<Rightarrow> error + 'r"




text \<open>
  \<^verbatim>\<open>
    with tempfile.NamedTemporaryFile(delete=False, suffix=file_extension) as tmp_file:
        tmp_file.write(content)
        tmp_file_path = tmp_file.name
  \<close>
  The file is created before it is written; a failed write leaves it in place, with
  whatever was written (here: nothing).
\<close>

definition create_temp ::
  "'r environment \<Rightarrow> filesystem \<Rightarrow> string \<Rightarrow> byte list \<Rightarrow> (error + string) \<times> filesystem" where
  "create_temp E fs file_extension bytes =
     (case NamedTemporaryFile E file_extension of
        Inl e \<Rightarrow> (Inl e, fs)
      | Inr tmp_file_path \<Rightarrow>
          (case write_error E of
             Some e \<Rightarrow> (Inl e, fs(tmp_file_path \<mapsto> []))
           | None \<Rightarrow> (Inr tmp_file_path, fs(tmp_file_path \<mapsto> bytes))))"



section \<open>Concrete inputs\<close>

text \<open>
  Libraries for the concrete evaluations below: no file parses as DICOM, every file opens
  as a 2 by 2 grey image, histogram equalization and blur return their input, and an
  undefined cast gives 0.
\<close>

definition demo_image :: pil_image where
  "demo_image = \<lparr>mode = ''L'', size_wh = (2, 2), pixels = [10, 20, 30, 40]\<rparr>"

definition demo_libs :: libs where
  "demo_libs =
     \<lparr>dcmread = (\<lambda>path stop. Inl InvalidDicomError),
      image_open = (\<lambda>path. Inr demo_image),
      convert_L = (\<lambda>img. Inr (img\<lparr>mode := ''L''\<rparr>)),
      equalizeHist = Inr,
      GaussianBlur3 = Inr,
      fromarray = (\<lambda>a. case shape a of
                          [h, w] \<Rightarrow> Inr \<lparr>mode = ''L'', size_wh = (w, h), pixels = data a\<rparr>
                        | _ \<Rightarrow> Inl TypeError),
      lanczos = (\<lambda>img sz. Inr (replicate (fst sz * snd sz) 0)),
      png_save = (\<lambda>img. Inr [137, 80, 78, 71]),
      cast_invalid = (\<lambda>v. 0)\<rparr>"

text \<open>
  Datasets: an inverted-polarity image with a window, the same without window attributes,
  and an image whose window has width zero.
\<close>

definition mono1_windowed :: dataset where
  "mono1_windowed =
     \<lparr>pixel_array = Inr \<lparr>shape = [2, 2], dtype = UInt16, data = [0, 100, 80, 60]\<rparr>,
      PhotometricInterpretation = Some ''MONOCHROME1'',
      WindowCenter = Some (DSfloat 50), WindowWidth = Some (DSfloat 100)\<rparr>"

definition mono1_plain :: dataset where
  "mono1_plain =
     \<lparr>pixel_array = Inr \<lparr>shape = [2, 2], dtype = UInt16, data = [0, 100, 80, 60]\<rparr>,
      PhotometricInterpretation = Some ''MONOCHROME1'',
      WindowCenter = None, WindowWidth = None\<rparr>"

definition zero_width :: dataset where
  "zero_width =
     \<lparr>pixel_array = Inr \<lparr>shape = [2, 2], dtype = Int16, data = [- 1000, 0, 40, 2000]\<rparr>,
      PhotometricInterpretation = Some ''MONOCHROME2'',
      WindowCenter = Some (DSfloat 40), WindowWidth = Some (DSfloat 0)\<rparr>"



section \<open>Properties of the format classifier\<close>

lemma lower_char_slash [simp]: "lower_char x = CHR ''/'' \<longleftrightarrow> x = CHR ''/''"
  by (simp add: lower_char_def)

lemma lower_char_dot [simp]: "lower_char x = CHR ''.'' \<longleftrightarrow> x = CHR ''.''"
  by (simp add: lower_char_def)

lemma rfind_from_lower:
  "c = CHR ''/'' \<or> c = CHR ''.'' \<Longrightarrow> rfind_from c (lower p) i hit = rfind_from c p i hit"
  by (induction p arbitrary: i hit) (auto simp: lower_def)

lemma rfind_lower:
  "c = CHR ''/'' \<or> c = CHR ''.'' \<Longrightarrow> rfind (lower p) c = rfind p c"
  by (simp add: rfind_def rfind_from_lower)

lemma lower_eq_dot [simp]: "lower s = ''.'' \<longleftrightarrow> s = ''.''"
  by (cases s) (auto simp: lower_def)

lemma skip_leading_dots_lower:
  "skip_leading_dots (lower p) i j = skip_leading_dots p i j"
proof (induction p i j rule: skip_leading_dots.induct)
  case (1 p i j)
  have eq: "take 1 (drop i (lower p)) = lower (take 1 (drop i p))"
    by (simp add: lower_def take_map drop_map)
  have "skip_leading_dots (lower p) i j =
      (if i < j then (if lower (take 1 (drop i p)) \<noteq> ''.'' then True
            else skip_leading_dots (lower p) (i + 1) j) else False)"
    by (subst skip_leading_dots.simps) (simp only: eq)
  also have "\<dots> = (if i < j then (if take 1 (drop i p) \<noteq> ''.'' then True
            else skip_leading_dots p (i + 1) j) else False)"
    using 1 by (simp only: lower_eq_dot split: if_splits) auto
  also have "\<dots> = skip_leading_dots p i j"
    by (subst (2) skip_leading_dots.simps) simp
  finally show ?case .
qed

text \<open>Lower-casing a path lower-cases its stem and its extension, and moves neither.\<close>

lemma splitext_lower:
  "splitext (lower p) = (lower (fst (splitext p)), lower (snd (splitext p)))"
  by (simp add: splitext_def Let_def rfind_lower skip_leading_dots_lower)
     (simp add: lower_def take_map drop_map)

text \<open>
  Claim C7. The format classifier never raises. If the extension of the (lower-cased) path
  is \<open>.dcm\<close> it answers True without any read. Otherwise it makes exactly one read, a
  header-only parse (\<open>stop_before_pixels=True\<close>), and answers True when the parse
  succeeds and False when it fails, whatever the failure.
\<close>

theorem is_dicom_file_classifies:
  "(\<exists>b. fst (is_dicom_file L p) = Inr b) \<and>
   (snd (splitext (lower p)) = ''.dcm'' \<longrightarrow> is_dicom_file L p = (Inr True, [])) \<and>
   (snd (splitext (lower p)) \<noteq> ''.dcm'' \<longrightarrow>
      snd (is_dicom_file L p) = [DcmRead p True] \<and>
      (\<forall>ds. dcmread L p True = Inr ds \<longrightarrow> fst (is_dicom_file L p) = Inr True) \<and>
      (\<forall>e. dcmread L p True = Inl e \<longrightarrow> fst (is_dicom_file L p) = Inr False))"
  by (auto simp: is_dicom_file_def Let_def split: sum.splits)

theorem is_dicom_file_classifies_witness:
  "snd (splitext (lower ''/tmp/tmpk3.dcm'')) = ''.dcm'' \<and>
   is_dicom_file demo_libs ''/tmp/tmpk3.dcm'' = (Inr True, []) \<and>
   snd (splitext (lower ''/tmp/tmpk3.png'')) \<noteq> ''.dcm'' \<and>
   dcmread demo_libs ''/tmp/tmpk3.png'' True = Inl InvalidDicomError \<and>
   is_dicom_file demo_libs ''/tmp/tmpk3.png'' = (Inr False, [DcmRead ''/tmp/tmpk3.png'' True])"
proof -
  have a: "snd (splitext (lower ''/tmp/tmpk3.dcm'')) = ''.dcm''"
    by (simp add: splitext_def rfind_def skip_leading_dots.simps lower_def lower_char_def)
  have b: "snd (splitext (lower ''/tmp/tmpk3.png'')) \<noteq> ''.dcm''"
    by (simp add: splitext_def rfind_def skip_leading_dots.simps lower_def lower_char_def)
  have c: "dcmread demo_libs ''/tmp/tmpk3.png'' True = Inl InvalidDicomError"
    by (simp add: demo_libs_def)
  from is_dicom_file_classifies [of demo_libs "''/tmp/tmpk3.dcm''"] a
  have d: "is_dicom_file demo_libs ''/tmp/tmpk3.dcm'' = (Inr True, [])"
    by blast
  from is_dicom_file_classifies [of demo_libs "''/tmp/tmpk3.png''"] b c
  have "snd (is_dicom_file demo_libs ''/tmp/tmpk3.png'') = [DcmRead ''/tmp/tmpk3.png'' True]"
    and "fst (is_dicom_file demo_libs ''/tmp/tmpk3.png'') = Inr False"
    by blast+
  then have e: "is_dicom_file demo_libs ''/tmp/tmpk3.png'' = (Inr False, [DcmRead ''/tmp/tmpk3.png'' True])"
    by (simp add: prod_eq_iff)
  from a b c d e show ?thesis by blast
qed

text \<open>
  Claim C10. Extension matching is case-insensitive: when the extension of the path, in
  any letter casing, lower-cases to \<open>.dcm\<close>, the classifier answers True and reads
  nothing, whatever the file holds: the result of the lowercase fast path.
\<close>

theorem is_dicom_file_extension_any_case:
  assumes "lower (snd (splitext p)) = ''.dcm''"
  shows "is_dicom_file L p = (Inr True, [])"
  using assms by (simp add: is_dicom_file_def Let_def splitext_lower)

theorem is_dicom_file_extension_any_case_witness:
  "lower (snd (splitext ''/tmp/Scan.01.DcM'')) = ''.dcm'' \<and>
   is_dicom_file demo_libs ''/tmp/Scan.01.DcM'' = (Inr True, [])"
proof -
  have a: "lower (snd (splitext ''/tmp/Scan.01.DcM'')) = ''.dcm''"
    by (simp add: splitext_def rfind_def skip_leading_dots.simps lower_def lower_char_def)
  from is_dicom_file_extension_any_case [OF a, of demo_libs] a show ?thesis by blast
qed

section \<open>Properties of the encoder and of the pipeline\<close>

lemma and_then_Inr_iff:
  "and_then m f = Inr y \<longleftrightarrow> (\<exists>x. m = Inr x \<and> f x = Inr y)"
  by (cases m) (simp_all add: and_then_def)

lemma and_then_simps [simp]:
  "and_then (Inl e) f = Inl e" "and_then (Inr x) f = f x"
  by (simp_all add: and_then_def)

subsection \<open>Decoding inverts \<open>b64encode\<close>\<close>

lemma b64_value_char_all:
  "list_all (\<lambda>i. b64_value (b64_char i) = Some i \<and> b64_char i \<noteq> CHR ''='') [0..<64]"
  by code_simp

lemma b64_value_char: "i < 64 \<Longrightarrow> b64_value (b64_char i) = Some i"
  using b64_value_char_all by (simp add: list_all_iff)

lemma b64_char_not_pad: "i < 64 \<Longrightarrow> b64_char i \<noteq> CHR ''=''"
  using b64_value_char_all by (simp add: list_all_iff)

lemma unat_byte_less: "unat (a :: byte) < 256"
  using unsigned_less [of a, where 'a = nat] by simp

lemma byte_of_unat: "of_nat (unat (a :: byte)) = a"
  by simp

lemma decode_group2:
  assumes "s1 < 64" "s2 < 64"
  shows "b64decode [b64_char s1, b64_char s2, CHR ''='', CHR ''=''] =
           Some [of_nat (s1 * 4 + s2 div 16)]"
  using assms by (simp add: b64_value_char)

lemma decode_group3:
  assumes "s1 < 64" "s2 < 64" "s3 < 64"
  shows "b64decode [b64_char s1, b64_char s2, b64_char s3, CHR ''=''] =
           Some [of_nat (s1 * 4 + s2 div 16), of_nat (s2 mod 16 * 16 + s3 div 4)]"
  using assms by (simp add: b64_value_char b64_char_not_pad)

lemma decode_group4:
  assumes "s1 < 64" "s2 < 64" "s3 < 64" "s4 < 64"
  shows "b64decode (b64_char s1 # b64_char s2 # b64_char s3 # b64_char s4 # r) =
           map_option (\<lambda>bs. of_nat (s1 * 4 + s2 div 16) # of_nat (s2 mod 16 * 16 + s3 div 4)
                             # of_nat (s3 mod 4 * 64 + s4) # bs) (b64decode r)"
  using assms by (simp add: b64_value_char b64_char_not_pad)

lemma sextet_bounds:
  fixes x y z :: nat
  assumes "x < 256" "y < 256" "z < 256"
  shows "x div 4 < 64" "x mod 4 * 16 < 64" "x mod 4 * 16 + y div 16 < 64"
        "y mod 16 * 4 < 64" "y mod 16 * 4 + z div 64 < 64" "z mod 64 < 64"
  using assms by arith+

lemma sextet_join:
  fixes x y z :: nat
  assumes "x < 256" "y < 256" "z < 256"
  shows "x div 4 * 4 + (x mod 4 * 16) div 16 = x"
        "x div 4 * 4 + (x mod 4 * 16 + y div 16) div 16 = x"
        "(x mod 4 * 16 + y div 16) mod 16 * 16 + (y mod 16 * 4) div 4 = y"
        "(x mod 4 * 16 + y div 16) mod 16 * 16 + (y mod 16 * 4 + z div 64) div 4 = y"
        "(y mod 16 * 4 + z div 64) mod 4 * 64 + z mod 64 = z"
proof -
  have y16: "y div 16 < 16" and z64: "z div 64 < 4"
    using assms by simp_all
  have a: "(x mod 4 * 16 + y div 16) div 16 = x mod 4"
    using y16 by simp
  have b: "(x mod 4 * 16 + y div 16) mod 16 = y div 16"
    using y16 by simp
  have c: "(y mod 16 * 4 + z div 64) div 4 = y mod 16"
    using z64 by simp
  have d: "(y mod 16 * 4 + z div 64) mod 4 = z div 64"
    using z64 by simp
  show "x div 4 * 4 + (x mod 4 * 16) div 16 = x" by simp
  show "x div 4 * 4 + (x mod 4 * 16 + y div 16) div 16 = x" by (simp only: a) simp
  show "(x mod 4 * 16 + y div 16) mod 16 * 16 + (y mod 16 * 4) div 4 = y"
    by (simp only: b) simp
  show "(x mod 4 * 16 + y div 16) mod 16 * 16 + (y mod 16 * 4 + z div 64) div 4 = y"
    by (simp only: b c) simp
  show "(y mod 16 * 4 + z div 64) mod 4 * 64 + z mod 64 = z"
    by (simp only: d) simp
qed

lemma b64decode_b64encode: "b64decode (b64encode bs) = Some bs"
proof (induction bs rule: b64encode.induct)
  case 1
  show ?case by simp
next
  case (2 a)
  note la = unat_byte_less [of a]
  have "b64decode (b64encode [a]) = Some [of_nat (unat a div 4 * 4 + (unat a mod 4 * 16) div 16)]"
    by (simp only: b64encode.simps decode_group2 sextet_bounds [OF la la la])
  also have "\<dots> = Some [a]"
    by (simp only: sextet_join [OF la la la] byte_of_unat)
  finally show ?case .
next
  case (3 a b)
  note la = unat_byte_less [of a] and lb = unat_byte_less [of b]
  have "b64decode (b64encode [a, b]) =
          Some [of_nat (unat a div 4 * 4 + (unat a mod 4 * 16 + unat b div 16) div 16),
                of_nat ((unat a mod 4 * 16 + unat b div 16) mod 16 * 16
                        + (unat b mod 16 * 4) div 4)]"
    by (simp only: b64encode.simps decode_group3 sextet_bounds [OF la lb lb])
  also have "\<dots> = Some [a, b]"
    by (simp only: sextet_join [OF la lb lb] byte_of_unat)
  finally show ?case .
next
  case (4 a b c rest)
  note la = unat_byte_less [of a] and lb = unat_byte_less [of b] and lc = unat_byte_less [of c]
  have "b64decode (b64encode (a # b # c # rest)) =
          map_option
            (\<lambda>bs. of_nat (unat a div 4 * 4 + (unat a mod 4 * 16 + unat b div 16) div 16)
               # of_nat ((unat a mod 4 * 16 + unat b div 16) mod 16 * 16
                         + (unat b mod 16 * 4 + unat c div 64) div 4)
               # of_nat ((unat b mod 16 * 4 + unat c div 64) mod 4 * 64 + unat c mod 64) # bs)
            (b64decode (b64encode rest))"
    by (simp only: b64encode.simps append_Cons append_Nil decode_group4
          sextet_bounds [OF la lb lc])
  also have "\<dots> = Some (a # b # c # rest)"
    by (simp only: sextet_join [OF la lb lc] byte_of_unat 4 option.map)
  finally show ?case .
qed

subsection \<open>The pipeline on the concrete libraries\<close>

lemma demo_libs_sel:
  "dcmread demo_libs = (\<lambda>path stop. Inl InvalidDicomError)"
  "image_open demo_libs = (\<lambda>path. Inr demo_image)"
  "convert_L demo_libs = (\<lambda>img. Inr (img\<lparr>mode := ''L''\<rparr>))"
  "equalizeHist demo_libs = Inr"
  "GaussianBlur3 demo_libs = Inr"
  "fromarray demo_libs = (\<lambda>a. case shape a of
                          [h, w] \<Rightarrow> Inr \<lparr>mode = ''L'', size_wh = (w, h), pixels = data a\<rparr>
                        | _ \<Rightarrow> Inl TypeError)"
  "lanczos demo_libs = (\<lambda>img sz. Inr (replicate (fst sz * snd sz) 0))"
  "png_save demo_libs = (\<lambda>img. Inr [137, 80, 78, 71])"
  "cast_invalid demo_libs = (\<lambda>v. 0)"
  by (simp_all add: demo_libs_def)

lemma demo_is_dicom_file:
  "is_dicom_file demo_libs ''/tmp/x.png'' = (Inr False, [DcmRead ''/tmp/x.png'' True])"
  by (simp add: is_dicom_file_def splitext_def rfind_def skip_leading_dots.simps lower_def
        lower_char_def demo_libs_sel)

lemma demo_read_standard_image:
  "read_standard_image demo_libs ''/tmp/x.png'' =
     Inr \<lparr>shape = [2, 2], dtype = UInt8, data = [10, 20, 30, 40]\<rparr>"
  by (simp add: read_standard_image_def demo_libs_sel demo_image_def)

lemma demo_normalize_ct_image:
  "normalize_ct_image demo_libs \<lparr>shape = [2, 2], dtype = UInt8, data = [10, 20, 30, 40]\<rparr>
     = Inr \<lparr>shape = [2, 2], dtype = UInt8, data = [0, 85, 170, 255]\<rparr>"
  by (simp add: normalize_ct_image_def minmax_scaled_def demo_libs_sel amax_def amin_def
        np_divide_def astype_uint8_def trunc_def Let_def)

lemma demo_encoded_image:
  "encoded_image demo_libs ''/tmp/x.png'' =
     Inr \<lparr>mode = ''L'', size_wh = (512, 512), pixels = replicate (512 * 512) 0\<rparr>"
  by (simp add: encoded_image_def demo_is_dicom_file demo_read_standard_image
        demo_normalize_ct_image resize_def target_size_def demo_libs_sel)

lemma demo_b64encode: "b64encode [137, 80, 78, 71] = ''iVBORw==''"
  by (simp add: b64_char_def b64_alphabet_def)

lemma demo_read_and_normalize:
  "read_and_normalize demo_libs ''/tmp/x.png'' = Inr ''data:image/png;base64,iVBORw==''"
  by (simp add: read_and_normalize_def demo_encoded_image pil_to_base64_def demo_libs_sel
        demo_b64encode del: b64encode.simps)

subsection \<open>The payload\<close>

lemma resize_size: "resize L img sz = Inr img' \<Longrightarrow> size_wh img' = sz"
  by (auto simp: resize_def and_then_Inr_iff)

lemma encoded_image_size:
  assumes "encoded_image L p = Inr img"
  shows "size_wh img = (512, 512)"
  using assms
  by (auto simp: encoded_image_def and_then_Inr_iff target_size_def
      dest: resize_size split: if_splits)

text \<open>
  Claim C1. Whenever \<open>read_and_normalize\<close> returns, for any file and whatever the
  libraries answer, the string it returns begins with \<open>data:image/png;base64,\<close>; the
  rest of the string base64-decodes to the bytes that PIL's PNG encoder wrote; and the
  image that was encoded has size exactly 512 by 512, whatever the size of the decoded
  array. (That PIL's encoder writes a valid PNG of the image it is given is PIL's
  contract; its output is a parameter of the model.)
\<close>

theorem read_and_normalize_payload:
  assumes "read_and_normalize L p = Inr s"
  shows "\<exists>img png. encoded_image L p = Inr img \<and> size_wh img = (512, 512) \<and>
           png_save L img = Inr png \<and>
           take 22 s = ''data:image/png;base64,'' \<and>
           b64decode (drop 22 s) = Some png"
proof -
  from assms obtain img where img: "encoded_image L p = Inr img"
    and enc: "pil_to_base64 L img = Inr s"
    by (auto simp: read_and_normalize_def and_then_Inr_iff)
  from enc obtain png where png: "png_save L img = Inr png"
    and s: "s = ''data:image/png;base64,'' @ b64encode png"
    by (auto simp: pil_to_base64_def and_then_Inr_iff)
  have "take 22 s = ''data:image/png;base64,''"
    by (simp add: s)
  moreover have "b64decode (drop 22 s) = Some png"
    by (simp add: s b64decode_b64encode)
  ultimately show ?thesis
    using img png encoded_image_size [OF img] by blast
qed

theorem read_and_normalize_payload_witness:
  "read_and_normalize demo_libs ''/tmp/x.png'' = Inr ''data:image/png;base64,iVBORw=='' \<and>
   (\<exists>img png. encoded_image demo_libs ''/tmp/x.png'' = Inr img \<and>
      size_wh img = (512, 512) \<and>
      png_save demo_libs img = Inr png \<and>
      take 22 ''data:image/png;base64,iVBORw=='' = ''data:image/png;base64,'' \<and>
      b64decode (drop 22 ''data:image/png;base64,iVBORw=='') = Some png)"
  using read_and_normalize_payload [OF demo_read_and_normalize] demo_read_and_normalize
  by blast

section \<open>Properties of the DICOM decoder\<close>

lemma amax_Max: "xs \<noteq> [] \<Longrightarrow> amax xs = Inr (Max (set xs))"
proof (cases xs)
  case Nil
  assume "xs \<noteq> []"
  with Nil show ?thesis by simp
next
  case (Cons a list)
  show ?thesis
    using Max.set_eq_fold [of a list] by (simp add: Cons amax_def)
qed

lemma amin_Min: "xs \<noteq> [] \<Longrightarrow> amin xs = Inr (Min (set xs))"
proof (cases xs)
  case Nil
  assume "xs \<noteq> []"
  with Nil show ?thesis by simp
next
  case (Cons a list)
  show ?thesis
    using Min.set_eq_fold [of a list] by (simp add: Cons amin_def)
qed

lemma wrap_id: "in_dtype dt v \<Longrightarrow> wrap dt v = v"
  by (cases dt) (auto simp: wrap_def in_dtype_def)



text \<open>
  In an unsigned dtype the difference \<open>max - x\<close> of two samples of the array is always
  representable; in a signed dtype it can overflow, and NumPy then wraps it around.
\<close>

lemma unsigned_difference_in_dtype:
  assumes "\<not> is_signed dt" and "\<forall>y \<in> set xs. in_dtype dt y" and "x \<in> set xs"
  shows "in_dtype dt (Max (set xs) - x)"
proof -
  have le: "x \<le> Max (set xs)" using assms(3) by simp
  have "Max (set xs) \<in> set xs"
    using assms(3) by (intro Max_in) auto
  with assms(1,2) have mx: "Max (set xs) < 2 ^ bits dt"
    by (auto simp: in_dtype_def)
  from assms have x: "0 \<le> x"
    by (auto simp: in_dtype_def)
  from le mx x have "0 \<le> Max (set xs) - x" and "Max (set xs) - x < 2 ^ bits dt"
    by linarith+
  with assms(1) show ?thesis
    by (simp add: in_dtype_def)
qed

lemma signed_inversion_wraps:
  "invert_polarity \<lparr>shape = [2, 2], dtype = Int16, data = [- 30000, 30000, 0, 5]\<rparr>
     = Inr \<lparr>shape = [2, 2], dtype = Int16, data = [- 5536, 0, 30000, 29995]\<rparr>"
  by (simp add: invert_polarity_def amax_def wrap_def)

text \<open>
  Claim C4, as stated, fails: the decoded array of an inverted-polarity dataset that also
  carries window attributes is the windowed inversion, not \<open>max(original) - original\<close>.
  Here the first sample decodes to 255 where the claim requires \<open>100 - 0 = 100\<close>.
\<close>

theorem inversion_then_window_counterexample:
  "PhotometricInterpretation mono1_windowed = Some ''MONOCHROME1'' \<and>
   pixel_array mono1_windowed = Inr \<lparr>shape = [2, 2], dtype = UInt16, data = [0, 100, 80, 60]\<rparr> \<and>
   decode_dataset demo_libs mono1_windowed
     = Inr \<lparr>shape = [2, 2], dtype = UInt8, data = [255, 0, 51, 102]\<rparr> \<and>
   Max (set [0, 100, 80, 60]) - [0, 100, 80, 60] ! 0 = (100 :: int) \<and>
   [255, 0, 51, 102] ! 0 \<noteq> (100 :: int)"
  by (simp add: mono1_windowed_def decode_dataset_def invert_polarity_def amax_def wrap_def
        first_value_def apply_window_level_def window_scaled_def np_clip_def np_divide_def
        astype_uint8_def trunc_def Let_def)

text \<open>
  Claim C4, amended. For a dataset without both window attributes, whose differences
  \<open>max(original) - original[i]\<close> are representable in the array's dtype (as they are
  for every unsigned dtype): decoding with the polarity tag removed returns the original
  array; with the tag equal to MONOCHROME1 the decoded array has the original's shape and
  dtype, satisfies \<open>inverted[i] = max(original) - original[i]\<close> for every sample, and
  orders the samples in exactly the reverse way; with the tag absent or different, no
  inversion is applied.
\<close>

theorem monochrome1_inverts_without_window:
  assumes "pixel_array ds = Inr a" and "data a \<noteq> []"
    and "WindowCenter ds = None \<or> WindowWidth ds = None"
    and "\<forall>x \<in> set (data a). in_dtype (dtype a) (Max (set (data a)) - x)"
  shows "decode_dataset L (ds\<lparr>PhotometricInterpretation := None\<rparr>) = Inr a \<and>
         (PhotometricInterpretation ds = Some ''MONOCHROME1'' \<longrightarrow>
           (\<exists>inverted. decode_dataset L ds = Inr inverted \<and>
              shape inverted = shape a \<and> dtype inverted = dtype a \<and>
              length (data inverted) = length (data a) \<and>
              (\<forall>i < length (data a). data inverted ! i = Max (set (data a)) - data a ! i) \<and>
              (\<forall>i < length (data a). \<forall>j < length (data a).
                 (data inverted ! i < data inverted ! j) = (data a ! j < data a ! i)))) \<and>
         (PhotometricInterpretation ds \<noteq> Some ''MONOCHROME1'' \<longrightarrow> decode_dataset L ds = Inr a)"
proof -
  have inv: "invert_polarity a = Inr (a\<lparr>data := map (\<lambda>x. Max (set (data a)) - x) (data a)\<rparr>)"
    using assms(2,4) by (simp add: invert_polarity_def amax_Max wrap_id and_then_def)
  have off: "decode_dataset L (ds\<lparr>PhotometricInterpretation := None\<rparr>) = Inr a"
    using assms(1,3) by (auto simp: decode_dataset_def and_then_def split: option.splits)
  have other: "decode_dataset L ds = Inr a"
    if "PhotometricInterpretation ds \<noteq> Some ''MONOCHROME1''"
    using assms(1,3) that by (auto simp: decode_dataset_def and_then_def split: option.splits)
  have mono: "\<exists>inverted. decode_dataset L ds = Inr inverted \<and>
            shape inverted = shape a \<and> dtype inverted = dtype a \<and>
            length (data inverted) = length (data a) \<and>
            (\<forall>i < length (data a). data inverted ! i = Max (set (data a)) - data a ! i) \<and>
            (\<forall>i < length (data a). \<forall>j < length (data a).
               (data inverted ! i < data inverted ! j) = (data a ! j < data a ! i))"
    if m: "PhotometricInterpretation ds = Some ''MONOCHROME1''"
  proof -
    have "decode_dataset L ds = Inr (a\<lparr>data := map (\<lambda>x. Max (set (data a)) - x) (data a)\<rparr>)"
      using assms(1,3) m inv by (auto simp: decode_dataset_def and_then_def split: option.splits)
    then show ?thesis by auto
  qed
  from off other mono show ?thesis by blast
qed

theorem monochrome1_inverts_without_window_witness:
  "pixel_array mono1_plain = Inr \<lparr>shape = [2, 2], dtype = UInt16, data = [0, 100, 80, 60]\<rparr> \<and>
   WindowCenter mono1_plain = None \<and>
   PhotometricInterpretation mono1_plain = Some ''MONOCHROME1'' \<and>
   list_all (\<lambda>x. in_dtype UInt16 (Max (set [0, 100, 80, 60]) - x)) [0, 100, 80, 60] \<and>
   decode_dataset demo_libs (mono1_plain\<lparr>PhotometricInterpretation := None\<rparr>)
     = Inr \<lparr>shape = [2, 2], dtype = UInt16, data = [0, 100, 80, 60]\<rparr> \<and>
   (\<exists>inverted. decode_dataset demo_libs mono1_plain = Inr inverted \<and>
      data inverted ! 2 = Max (set [0, 100, 80, 60]) - [0, 100, 80, 60] ! 2)"
proof -
  let ?a = "\<lparr>shape = [2, 2], dtype = UInt16, data = [0, 100, 80, 60]\<rparr>"
  have h1: "pixel_array mono1_plain = Inr ?a" by (simp add: mono1_plain_def)
  have h2: "data ?a \<noteq> []" by simp
  have h3: "WindowCenter mono1_plain = None \<or> WindowWidth mono1_plain = None"
    by (simp add: mono1_plain_def)
  have h4: "\<forall>x \<in> set (data ?a). in_dtype (dtype ?a) (Max (set (data ?a)) - x)"
    by (simp add: in_dtype_def)
  have h5: "PhotometricInterpretation mono1_plain = Some ''MONOCHROME1''"
    by (simp add: mono1_plain_def)
  have h6: "(2 :: nat) < length (data ?a)" by simp
  from monochrome1_inverts_without_window [OF h1 h2 h3 h4, of demo_libs] h5
  obtain inverted where
    off: "decode_dataset demo_libs (mono1_plain\<lparr>PhotometricInterpretation := None\<rparr>) = Inr ?a"
    and dec: "decode_dataset demo_libs mono1_plain = Inr inverted"
    and all: "\<forall>i < length (data ?a). data inverted ! i = Max (set (data ?a)) - data ?a ! i"
    by blast
  from all h6 have "data inverted ! 2 = Max (set (data ?a)) - data ?a ! 2"
    by blast
  with dec have "\<exists>inverted. decode_dataset demo_libs mono1_plain = Inr inverted \<and>
      data inverted ! 2 = Max (set [0, 100, 80, 60]) - [0, 100, 80, 60] ! 2"
    by simp
  with h1 h3 h4 h5 off show ?thesis
    by (simp add: mono1_plain_def list_all_iff)
qed

text \<open>
  Claim C2 (the code at a window of width zero). With WindowCenter 40 and WindowWidth 0
  the decoder neither raises, nor skips the windowing, nor clamps the width: it divides
  \<open>0\<close> by \<open>0\<close> for every sample, the float array is all NaN, and the returned
  \<open>uint8\<close> array holds whatever the platform's cast of NaN gives. Skipping the windowing
  would have returned the original samples.
\<close>

theorem zero_width_divides_by_zero:
  "window_scaled [- 1000, 0, 40, 2000] 40 0 = [NaN, NaN, NaN, NaN] \<and>
   decode_dataset L zero_width
     = Inr \<lparr>shape = [2, 2], dtype = UInt8,
            data = replicate 4 (wrap UInt8 (cast_invalid L NaN))\<rparr> \<and>
   decode_dataset L (zero_width\<lparr>WindowCenter := None, WindowWidth := None\<rparr>)
     = Inr \<lparr>shape = [2, 2], dtype = Int16, data = [- 1000, 0, 40, 2000]\<rparr>"
  by (simp add: zero_width_def decode_dataset_def first_value_def apply_window_level_def
        window_scaled_def np_clip_def np_divide_def astype_uint8_def Let_def numeral_eq_Suc)

section \<open>Properties of the windowing transform\<close>

lemma np_multiply_float_id: "np_multiply_float id v k = np_multiply v k"
  by (cases v) simp_all

lemma window_scaled_float_id: "window_scaled_float id xs c w = window_scaled xs c w"
  by (simp add: window_scaled_float_def window_scaled_def np_divide_float_def np_divide_def
        np_multiply_float_id Let_def)

lemma apply_window_level_float_id:
  "apply_window_level_float L id img c w = apply_window_level L img c w"
  by (simp add: apply_window_level_float_def apply_window_level_def window_scaled_float_id)


text \<open>Without rounding, the computed bounds are ordered exactly when the width is positive.\<close>

lemma exact_bounds_ordered_iff:
  "(id ((c :: rat) - id (w / 2)) < id (c + id (w / 2))) = (0 < w)"
  by auto




text \<open>
  Claim C9, as stated, fails: windowing an 8-bit array with the center and width of its
  own range stretches that range to \<open>[0, 255]\<close>. The array \<open>[10, 20, 10, 20]\<close> becomes
  \<open>[0, 255, 0, 255]\<close>.
\<close>

theorem window_own_range_counterexample:
  "amin [10, 20, 10, 20 :: int] = Inr 10 \<and> amax [10, 20, 10, 20 :: int] = Inr 20 \<and>
   apply_window_level demo_libs \<lparr>shape = [2, 2], dtype = UInt8, data = [10, 20, 10, 20]\<rparr>
       ((10 + 20) / 2) (20 - 10)
     = \<lparr>shape = [2, 2], dtype = UInt8, data = [0, 255, 0, 255]\<rparr>"
  by (simp add: amin_def amax_def apply_window_level_def window_scaled_def np_clip_def
        np_divide_def astype_uint8_def trunc_def Let_def)

text \<open>
  Claim C9, amended. For every 8-bit array with values in \<open>[0, 255]\<close> whose minimum is 0
  and whose maximum is 255, windowing with \<open>center = (min + max) / 2\<close> and
  \<open>width = max - min\<close> returns the array unchanged (in the model's exact arithmetic).
\<close>

theorem window_full_range_identity:
  assumes "dtype a = UInt8" and "\<forall>x \<in> set (data a). 0 \<le> x \<and> x \<le> 255"
    and "amin (data a) = Inr mn" and "amax (data a) = Inr mx"
    and "mn = 0" and "mx = 255"
  shows "apply_window_level L a ((of_int mn + of_int mx) / 2) (of_int mx - of_int mn) = a"
proof -
  have s: "astype_uint8 L (np_multiply (np_divide (np_clip 0 255 (of_int x) - 0) (255 - 0)) 255) = x"
    if "0 \<le> x" "x \<le> 255" for x :: int
  proof -
    have "np_clip 0 255 (of_int x) = (of_int x :: rat)"
      using that by (simp add: np_clip_def)
    then show ?thesis
      using that by (simp add: np_divide_def astype_uint8_def trunc_def)
  qed
  have "map (astype_uint8 L) (window_scaled (data a) (255 / 2) 255) = data a"
    using assms(2) s by (simp add: window_scaled_def Let_def map_idI)
  then show ?thesis
    using assms(1,5,6) by (simp add: apply_window_level_def)
qed

theorem window_full_range_identity_witness:
  "dtype \<lparr>shape = [2, 2], dtype = UInt8, data = [0, 255, 128, 7]\<rparr> = UInt8 \<and>
   list_all (\<lambda>x. 0 \<le> x \<and> x \<le> 255) [0, 255, 128, 7 :: int] \<and>
   amin [0, 255, 128, 7 :: int] = Inr 0 \<and> amax [0, 255, 128, 7 :: int] = Inr 255 \<and>
   apply_window_level demo_libs \<lparr>shape = [2, 2], dtype = UInt8, data = [0, 255, 128, 7]\<rparr>
       ((of_int 0 + of_int 255) / 2) (of_int 255 - of_int 0)
     = \<lparr>shape = [2, 2], dtype = UInt8, data = [0, 255, 128, 7]\<rparr>"
proof -
  let ?a = "\<lparr>shape = [2, 2], dtype = UInt8, data = [0, 255, 128, 7]\<rparr>"
  have h1: "dtype ?a = UInt8" by simp
  have h2: "\<forall>x \<in> set (data ?a). 0 \<le> x \<and> x \<le> 255" by simp
  have h3: "amin (data ?a) = Inr 0" by (simp add: amin_def)
  have h4: "amax (data ?a) = Inr 255" by (simp add: amax_def)
  from window_full_range_identity [OF h1 h2 h3 h4 refl refl, of demo_libs] h2 h3 h4
  show ?thesis by simp
qed

section \<open>Properties of the normalization\<close>

text \<open>
  Claim C5. For every non-empty 2-D array whose maximum equals its minimum, the
  normalization makes no division and raises nothing of its own: the rescaled array is
  zero everywhere (no NaN, no infinity), and the all-zero \<open>uint8\<close> array of the same
  shape is what OpenCV is given. OpenCV's histogram equalization and blur returning the
  all-zero image for the all-zero image, \<open>_normalize_ct_image\<close> returns that array.
\<close>

theorem normalize_flat_image:
  assumes "shape a = [h, w]" and "data a \<noteq> []" and "amax (data a) = amin (data a)"
  defines "zeros \<equiv> \<lparr>shape = [h, w], dtype = UInt8, data = replicate (length (data a)) 0\<rparr>"
  shows "(\<exists>m. amax (map of_int (data a)) = Inr m \<and> amin (map of_int (data a)) = Inr m \<and>
              minmax_scaled (map of_int (data a)) m m = replicate (length (data a)) (Fin 0)) \<and>
         normalize_ct_image L a = and_then (equalizeHist L zeros) (GaussianBlur3 L) \<and>
         (equalizeHist L zeros = Inr zeros \<longrightarrow> GaussianBlur3 L zeros = Inr zeros \<longrightarrow>
            normalize_ct_image L a = Inr zeros)"
proof -
  let ?xs = "data a"
  let ?n = "length ?xs"
  from assms(2,3) have mm: "Max (set ?xs) = Min (set ?xs)"
    by (simp add: amax_Max amin_Min)
  have "x = Max (set ?xs)" if "x \<in> set ?xs" for x
  proof -
    have "x \<le> Max (set ?xs)" and "Min (set ?xs) \<le> x" using that by simp_all
    with mm show ?thesis by simp
  qed
  then have rep: "replicate ?n (Max (set ?xs)) = ?xs"
    by (intro replicate_length_same) simp
  define c where "c = Max (set ?xs)"
  have n: "0 < ?n" using assms(2) by simp
  have xs: "map of_int ?xs = replicate ?n (of_int c :: rat)"
    using rep by (metis c_def map_replicate)
  have ne: "replicate ?n (of_int c :: rat) \<noteq> []" using n by simp
  have mx: "amax (replicate ?n (of_int c :: rat)) = Inr (of_int c)"
    using n by (simp add: amax_Max [OF ne])
  have mn: "amin (replicate ?n (of_int c :: rat)) = Inr (of_int c)"
    using n by (simp add: amin_Min [OF ne])
  have sc: "minmax_scaled (replicate ?n (of_int c :: rat)) (of_int c) (of_int c)
              = replicate ?n (Fin 0)"
    by (simp add: minmax_scaled_def map_replicate_const)
  have z: "astype_uint8 L (Fin 0) = 0"
    by (simp add: astype_uint8_def trunc_def)
  have run: "normalize_ct_image L a = and_then (equalizeHist L zeros) (GaussianBlur3 L)"
    using assms(1) by (simp add: normalize_ct_image_def Let_def xs mx mn sc z zeros_def)
  have "normalize_ct_image L a = Inr zeros"
    if "equalizeHist L zeros = Inr zeros" and "GaussianBlur3 L zeros = Inr zeros"
    using that by (simp add: run)
  with run mx mn sc xs show ?thesis
    by auto
qed

theorem normalize_flat_image_witness:
  "shape \<lparr>shape = [2, 2], dtype = Int16, data = [7, 7, 7, 7]\<rparr> = [2, 2] \<and>
   amax [7, 7, 7, 7 :: int] = amin [7, 7, 7, 7 :: int] \<and>
   equalizeHist demo_libs \<lparr>shape = [2, 2], dtype = UInt8, data = [0, 0, 0, 0]\<rparr>
     = Inr \<lparr>shape = [2, 2], dtype = UInt8, data = [0, 0, 0, 0]\<rparr> \<and>
   GaussianBlur3 demo_libs \<lparr>shape = [2, 2], dtype = UInt8, data = [0, 0, 0, 0]\<rparr>
     = Inr \<lparr>shape = [2, 2], dtype = UInt8, data = [0, 0, 0, 0]\<rparr> \<and>
   normalize_ct_image demo_libs \<lparr>shape = [2, 2], dtype = Int16, data = [7, 7, 7, 7]\<rparr>
     = Inr \<lparr>shape = [2, 2], dtype = UInt8, data = [0, 0, 0, 0]\<rparr>"
proof -
  let ?a = "\<lparr>shape = [2, 2], dtype = Int16, data = [7, 7, 7, 7]\<rparr>"
  let ?z = "\<lparr>shape = [2, 2], dtype = UInt8, data = replicate (length (data ?a)) 0\<rparr>"
  have h1: "shape ?a = [2, 2]" by simp
  have h2: "data ?a \<noteq> []" by simp
  have h3: "amax (data ?a) = amin (data ?a)" by (simp add: amax_def amin_def)
  have h4: "equalizeHist demo_libs ?z = Inr ?z" by (simp add: demo_libs_sel)
  have h5: "GaussianBlur3 demo_libs ?z = Inr ?z" by (simp add: demo_libs_sel)
  from normalize_flat_image [OF h1 h2 h3, of demo_libs] h3 h4 h5
  show ?thesis by simp
qed

section \<open>Properties of the upload handler\<close>



text \<open>
  A failed write is the one path on which a created temporary file stays: it happens
  before the \<open>try\<close> whose \<open>finally\<close> removes the file.
\<close>

lemma create_temp_write_failure:
  assumes "NamedTemporaryFile E ext = Inr tmp_file_path" and "write_error E = Some e"
  shows "create_temp E fs ext bytes = (Inl e, fs(tmp_file_path \<mapsto> []))"
  using assms by (simp add: create_temp_def)



end
